theory Spec2Isabelle
  imports Complex_Main "HOL-Library.AList"
begin

section \<open>The preprocessing notebook\<close>

text \<open>
  The repository is one notebook, \<^verbatim>\<open>Tutorial.ipynb\<close>. Its last cell (lines 240 to 297)
  repeats the step cells above it in one piece:
  \<^verbatim>\<open>
  data = pd.read_csv('AirQualityUCI.csv', sep=';')
  imputer = SimpleImputer(strategy='mean')
  data['CO(GT)'] = imputer.fit_transform(data[['CO(GT)']])
  data = data[(data != -200).all(axis=1)]
  scaler = StandardScaler()
  data[['CO(GT)', 'PT08.S1(CO)', 'C6H6(GT)']] = scaler.fit_transform(data[['CO(GT)', 'PT08.S1(CO)', 'C6H6(GT)']])
  minmax_scaler = MinMaxScaler()
  data[['T', 'RH', 'AH']] = minmax_scaler.fit_transform(data[['T', 'RH', 'AH']])
  data['DateTime'] = pd.to_datetime(data['Date'] + ' ' + data['Time'])
  data['Hour'] = data['DateTime'].dt.hour
  data['Day'] = data['DateTime'].dt.day
  ... two plots ...
  data.to_csv('AirQualityUCI_preprocessed.csv', index=False)
  \<close>
  Every statement is a call into pandas or scikit-learn on the one data frame \<^verbatim>\<open>data\<close>.
  The model below gives each call the meaning the library documents for it. A number
  in the frame is a float64 value, written as the \<^typ>\<open>real\<close> it denotes, and NaN is the
  missing value \<open>None\<close>. Comparing a number with \<open>-200\<close>, copying it and selecting rows
  are exact and are defined here. The arithmetic the libraries do in float64 (the mean
  the imputer fits, the two scalers) rounds and can overflow; it is not part of the
  notebook, and it enters the model as the parameter \<open>kernels\<close>, about which nothing is
  assumed. The same holds for the timestamp parser. The model ends with the frame the
  feature deriver returns: the plots and the export hand that frame to the plotting
  library and to the file system and do not change it.
\<close>

subsection \<open>Data frames\<close>

text \<open>
  A column read by \<^verbatim>\<open>read_csv\<close> is numeric (int64 or float64, NaN for an empty
  field) or holds strings (dtype object, NaN for an empty field); \<^verbatim>\<open>to_datetime\<close>
  adds columns of timestamps, with NaT for a missing one. A timestamp is what pandas
  stores for it: the number of nanoseconds since 1970-01-01 00:00:00. The frame keeps
  its row labels (\<open>index\<close>) next to the ordered, named columns.
\<close>

type_synonym timestamp = int

datatype column =
    NumCol "real option list"
  | StrCol "string option list"
  | TsCol "timestamp option list"

datatype cell = NumV real | StrV string | TsV timestamp | NA

record table =
  index :: "nat list"
  columns :: "(string \<times> column) list"

text \<open>
  The first three errors are the Python exceptions of these names. \<open>NoStatistic\<close> is
  not an exception: it marks the one place where the notebook goes on with a frame
  this model has no value for (see the imputation below).
\<close>

datatype error = KeyError | ValueError | TypeError | NoStatistic

fun col_len :: "column \<Rightarrow> nat" where
  "col_len (NumCol xs) = length xs"
| "col_len (StrCol xs) = length xs"
| "col_len (TsCol xs) = length xs"

fun cells :: "column \<Rightarrow> cell list" where
  "cells (NumCol xs) = map (case_option NA NumV) xs"
| "cells (StrCol xs) = map (case_option NA StrV) xs"
| "cells (TsCol xs) = map (case_option NA TsV) xs"

definition nrows :: "table \<Rightarrow> nat" where
  "nrows t = length (index t)"

text \<open>Row alignment: column names are distinct and every column has one value per row.\<close>

definition wf_table :: "table \<Rightarrow> bool" where
  "wf_table t \<longleftrightarrow>
     distinct (map fst (columns t)) \<and>
     list_all (\<lambda>(n, c). col_len c = nrows t) (columns t)"

text \<open>The row at position \<open>i\<close>, and the frame read row by row.\<close>

definition row_at :: "table \<Rightarrow> nat \<Rightarrow> (string \<times> cell) list" where
  "row_at t i = map (\<lambda>(n, c). (n, cells c ! i)) (columns t)"

definition rows :: "table \<Rightarrow> (string \<times> cell) list list" where
  "rows t = map (row_at t) [0..<nrows t]"

text \<open>
  \<^verbatim>\<open>data[name]\<close> raises KeyError on an unknown name; \<^verbatim>\<open>data[name] = values\<close>
  overwrites the column in place, or appends it when the name is new.
\<close>

definition get_col :: "table \<Rightarrow> string \<Rightarrow> column option" where
  "get_col t name = map_of (columns t) name"

definition set_col :: "table \<Rightarrow> string \<Rightarrow> column \<Rightarrow> table" where
  "set_col t name c = t\<lparr>columns := AList.update name c (columns t)\<rparr>"

fun present :: "'a option list \<Rightarrow> 'a list" where
  "present [] = []"
| "present (None # xs) = present xs"
| "present (Some x # xs) = x # present xs"

text \<open>
  The float64 arithmetic of the libraries, one function per use:
  \<^item> \<open>imputer_mean\<close>: the mean \<^verbatim>\<open>SimpleImputer\<close> fits from the values of a column that
    are not NaN, \<open>None\<close> when it fits none (no value present, or a sum that overflows);
  \<^item> \<open>as_float64\<close>: the conversion of a stored number to float64 (the identity on a
    float64 column, a rounding on an int64 column with entries beyond \<open>2^53\<close>);
  \<^item> \<open>standard_scaler\<close>, \<open>minmax_scaler\<close>: what \<^verbatim>\<open>StandardScaler().fit_transform\<close> and
    \<^verbatim>\<open>MinMaxScaler().fit_transform\<close> return for one column. In their result \<open>None\<close>
    stands for every entry that is not a finite number.
\<close>

record kernels =
  imputer_mean :: "real list \<Rightarrow> real option"
  as_float64 :: "real \<Rightarrow> real"
  standard_scaler :: "real option list \<Rightarrow> real option list"
  minmax_scaler :: "real option list \<Rightarrow> real option list"


subsection \<open>Cleaner: mean imputation (lines 259 and 260)\<close>

text \<open>
  \<^verbatim>\<open>SimpleImputer(strategy='mean')\<close> raises ValueError on a column that is not numeric
  and on a frame without rows. Otherwise it fits the mean of the values that are not
  NaN and returns the column converted to float64 with that mean in every NaN. When it
  fits no mean it returns an array without columns; the assignment of that array
  raises nothing, and this model has no value for the frame it leaves: that outcome is
  \<open>NoStatistic\<close>, and what the notebook does after it is not modelled.
\<close>

definition impute :: "kernels \<Rightarrow> table \<Rightarrow> error + table" where
  "impute K t =
     (case get_col t ''CO(GT)'' of
        None \<Rightarrow> Inl KeyError
      | Some (NumCol xs) \<Rightarrow>
          if xs = [] then Inl ValueError
          else (case imputer_mean K (present xs) of
                  None \<Rightarrow> Inl NoStatistic
                | Some m \<Rightarrow>
                    Inr (set_col t ''CO(GT)''
                      (NumCol (map (\<lambda>c. case c of None \<Rightarrow> Some m
                                            | Some x \<Rightarrow> Some (as_float64 K x)) xs))))
      | Some (StrCol xs) \<Rightarrow> Inl ValueError
      | Some (TsCol xs) \<Rightarrow> Inl ValueError)"

subsection \<open>Cleaner: sentinel filter (line 261)\<close>

text \<open>
  \<^verbatim>\<open>data != -200\<close> compares every cell with the number: a numeric cell differs unless
  it is \<open>-200\<close> (NaN differs from everything), a string or a timestamp always differs
  from a number. \<^verbatim>\<open>.all(axis=1)\<close> is the conjunction along each row, and indexing the
  frame with that boolean mask keeps the rows, and their labels, where it is true.
\<close>

fun ne_scalar :: "column \<Rightarrow> real \<Rightarrow> bool list" where
  "ne_scalar (NumCol xs) v = map (\<lambda>x. x \<noteq> Some v) xs"
| "ne_scalar (StrCol xs) v = map (\<lambda>_. True) xs"
| "ne_scalar (TsCol xs) v = map (\<lambda>_. True) xs"

definition all_axis1 :: "nat \<Rightarrow> bool list list \<Rightarrow> bool list" where
  "all_axis1 n frame = map (\<lambda>i. list_all (\<lambda>col. col ! i) frame) [0..<n]"

definition select :: "bool list \<Rightarrow> 'a list \<Rightarrow> 'a list" where
  "select bs xs = map fst (filter snd (zip xs bs))"

fun take_col :: "bool list \<Rightarrow> column \<Rightarrow> column" where
  "take_col bs (NumCol xs) = NumCol (select bs xs)"
| "take_col bs (StrCol xs) = StrCol (select bs xs)"
| "take_col bs (TsCol xs) = TsCol (select bs xs)"

definition keep_mask :: "table \<Rightarrow> bool list" where
  "keep_mask t = all_axis1 (nrows t) (map (\<lambda>(n, c). ne_scalar c (- 200)) (columns t))"

definition drop_invalid :: "table \<Rightarrow> table" where
  "drop_invalid t =
     (let bs = keep_mask t
      in \<lparr>index = select bs (index t),
          columns = map (\<lambda>(n, c). (n, take_col bs c)) (columns t)\<rparr>)"

definition cleaner :: "kernels \<Rightarrow> table \<Rightarrow> error + table" where
  "cleaner K t = (case impute K t of Inl e \<Rightarrow> Inl e | Inr t1 \<Rightarrow> Inr (drop_invalid t1))"

subsection \<open>Scaler (lines 267 to 270)\<close>

text \<open>
  \<^verbatim>\<open>data[[...]]\<close> raises KeyError for an unknown column. Both scalers raise ValueError
  for a column that is not numeric and for a frame without rows, and they raise on
  nothing else that a frame of finite numbers and NaN can hold: a column of zero
  variance or zero range is scaled like any other (the scalers replace a zero scale by
  one before they divide). Each column is fitted and transformed on its own, by the
  kernel, and the results are assigned back column by column.
\<close>

fun select_cols :: "table \<Rightarrow> string list \<Rightarrow> error + column list" where
  "select_cols t [] = Inr []"
| "select_cols t (n # ns) =
     (case get_col t n of
        None \<Rightarrow> Inl KeyError
      | Some c \<Rightarrow> (case select_cols t ns of Inl e \<Rightarrow> Inl e | Inr cs \<Rightarrow> Inr (c # cs)))"

fun as_float :: "column \<Rightarrow> error + real option list" where
  "as_float (NumCol xs) = Inr xs"
| "as_float (StrCol xs) = Inl ValueError"
| "as_float (TsCol xs) = Inl TypeError"

fun check_array :: "column list \<Rightarrow> error + real option list list" where
  "check_array [] = Inr []"
| "check_array (c # cs) =
     (case as_float c of
        Inl e \<Rightarrow> Inl e
      | Inr xs \<Rightarrow> (case check_array cs of Inl e \<Rightarrow> Inl e | Inr xss \<Rightarrow> Inr (xs # xss)))"

fun assign_cols :: "table \<Rightarrow> string list \<Rightarrow> column list \<Rightarrow> table" where
  "assign_cols t (n # ns) (c # cs) = assign_cols (set_col t n c) ns cs"
| "assign_cols t ns cs = t"

definition fit_transform ::
  "(real option list \<Rightarrow> real option list) \<Rightarrow> table \<Rightarrow> string list \<Rightarrow> error + table" where
  "fit_transform f t names =
     (case select_cols t names of
        Inl e \<Rightarrow> Inl e
      | Inr cs \<Rightarrow>
          (case check_array cs of
             Inl e \<Rightarrow> Inl e
           | Inr xss \<Rightarrow>
               if nrows t = 0 then Inl ValueError
               else Inr (assign_cols t names (map (\<lambda>xs. NumCol (f xs)) xss))))"

definition std_cols :: "string list" where
  "std_cols = [''CO(GT)'', ''PT08.S1(CO)'', ''C6H6(GT)'']"

definition minmax_cols :: "string list" where
  "minmax_cols = [''T'', ''RH'', ''AH'']"

definition scaler :: "kernels \<Rightarrow> table \<Rightarrow> error + table" where
  "scaler K t =
     (case fit_transform (standard_scaler K) t std_cols of
        Inl e \<Rightarrow> Inl e
      | Inr t1 \<Rightarrow> fit_transform (minmax_scaler K) t1 minmax_cols)"

subsection \<open>Feature deriver (lines 276 to 278)\<close>

text \<open>
  Adding two string columns concatenates row by row, and a row where either side is
  NaN gives NaN; adding a string to a numeric column raises TypeError.
  \<^verbatim>\<open>pd.to_datetime\<close> parses every string with a format it infers from the column itself,
  raises (a ValueError) as soon as one string does not parse, and turns NaN into NaT.
  The parser is not part of the notebook: it is the parameter \<open>parse\<close>, which sees the
  strings of the whole column and the string to parse.
\<close>

type_synonym parser = "string list \<Rightarrow> string \<Rightarrow> timestamp option"

fun str_add :: "string option \<Rightarrow> string option \<Rightarrow> string option" where
  "str_add (Some a) (Some b) = Some (a @ b)"
| "str_add a b = None"

definition concat_date_time :: "string option list \<Rightarrow> string option list \<Rightarrow> string option list" where
  "concat_date_time ds ts = map2 (\<lambda>d tm. str_add (str_add d (Some '' '')) tm) ds ts"

definition to_datetime :: "parser \<Rightarrow> string option list \<Rightarrow> error + timestamp option list" where
  "to_datetime parse ss =
     (let ctx = present ss
      in if \<exists>s \<in> set ctx. parse ctx s = None then Inl ValueError
         else Inr (map (\<lambda>c. case c of None \<Rightarrow> None | Some s \<Rightarrow> parse ctx s) ss))"

text \<open>
  \<^verbatim>\<open>.dt.hour\<close> and \<^verbatim>\<open>.dt.day\<close> read the fields of a timestamp off its nanoseconds, the
  way the library's C code does: the days since 1970 are moved to the year 2000 and cut
  into cycles of 400, 100, 4 and 1 years, which gives the year and the day within it;
  the day of the month is found by walking the month lengths of that year (the fields
  start out as 1970-01-01, which is what is left if the walk ends without a month).
  The divisions round down, also for times before 1970. Both are NaN on NaT.
\<close>

definition ns_per_day :: int where
  "ns_per_day = 24 * 60 * 60 * 1000 * 1000 * 1000"

definition ns_per_hour :: int where
  "ns_per_hour = 60 * 60 * 1000 * 1000 * 1000"

definition is_leapyear :: "int \<Rightarrow> bool" where
  "is_leapyear y \<longleftrightarrow> y mod 4 = 0 \<and> (y mod 100 \<noteq> 0 \<or> y mod 400 = 0)"

definition days_to_yearsdays :: "int \<Rightarrow> int \<times> int" where
  "days_to_yearsdays days0 =
     (let days = days0 - (365 * 30 + 7);
          year = 400 * (days div 146097);
          days = days mod 146097
      in if 366 \<le> days then
           (let year = year + 100 * ((days - 1) div 36524);
                days = (days - 1) mod 36524
            in if 365 \<le> days then
                 (let year = year + 4 * ((days + 1) div 1461);
                      days = (days + 1) mod 1461
                  in if 366 \<le> days
                     then (year + (days - 1) div 365 + 2000, (days - 1) mod 365)
                     else (year + 2000, days))
               else (year + 2000, days))
         else (year + 2000, days))"

definition month_lengths :: "bool \<Rightarrow> int list" where
  "month_lengths leap = [31, if leap then 29 else 28, 31, 30, 31, 30, 31, 31, 30, 31, 30, 31]"

fun month_walk :: "int \<Rightarrow> int list \<Rightarrow> int" where
  "month_walk days [] = 1"
| "month_walk days (l # ls) = (if days < l then days + 1 else month_walk (days - l) ls)"

definition dt_hour :: "timestamp \<Rightarrow> int" where
  "dt_hour ts = (ts mod ns_per_day) div ns_per_hour"

definition dt_day :: "timestamp \<Rightarrow> int" where
  "dt_day ts =
     (case days_to_yearsdays (ts div ns_per_day) of
        (year, days) \<Rightarrow> month_walk days (month_lengths (is_leapyear year)))"

definition feature_deriver :: "parser \<Rightarrow> table \<Rightarrow> error + table" where
  "feature_deriver parse t =
     (case get_col t ''Date'' of
        None \<Rightarrow> Inl KeyError
      | Some dc \<Rightarrow>
     (case get_col t ''Time'' of
        None \<Rightarrow> Inl KeyError
      | Some tc \<Rightarrow>
     (case (dc, tc) of
        (StrCol ds, StrCol ts) \<Rightarrow>
          (case to_datetime parse (concat_date_time ds ts) of
             Inl e \<Rightarrow> Inl e
           | Inr dts \<Rightarrow>
               (let t1 = set_col t ''DateTime'' (TsCol dts);
                    t2 = set_col t1 ''Hour'' (NumCol (map (map_option (\<lambda>x. real_of_int (dt_hour x))) dts));
                    t3 = set_col t2 ''Day'' (NumCol (map (map_option (\<lambda>x. real_of_int (dt_day x))) dts))
                in Inr t3))
      | _ \<Rightarrow> Inl TypeError)))"

section \<open>Example frames\<close>

text \<open>
  Three readings: the first has the sentinel in \<^verbatim>\<open>CO(GT)\<close>, the second in
  \<^verbatim>\<open>PT08.S1(CO)\<close>, the third has none.
\<close>

definition ex_sentinels :: table where
  "ex_sentinels = \<lparr>index = [0, 1, 2],
     columns = [(''Date'', StrCol [Some ''10/03/2004'', Some ''10/03/2004'', Some ''10/03/2004'']),
                (''CO(GT)'', NumCol [Some (- 200), Some 2, Some 3]),
                (''PT08.S1(CO)'', NumCol [Some 1100, Some (- 200), Some 1200])]\<rparr>"

text \<open>
  The float64 results the examples need, as the libraries return them on the columns
  of the frames below; on every other argument the example kernels are left
  unspecified. \<open>f64_0_1\<close>, \<open>f64_0_2\<close> and \<open>f64_0_3\<close> are the float64 values that
  \<^verbatim>\<open>read_csv\<close> reads from the texts 0.1, 0.2 and 0.3, and \<open>f64_mean_0_2\<close> is the mean the
  imputer fits from them, which prints as 0.20000000000000004. \<open>f64_huge\<close> is the
  float64 value that prints as 8.98846567431158e+307; the sum of two of them overflows,
  and the imputer fits no mean.
\<close>

definition f64_0_1 :: real where "f64_0_1 = 3602879701896397 / 36028797018963968"

definition f64_0_2 :: real where "f64_0_2 = 3602879701896397 / 18014398509481984"

definition f64_0_3 :: real where "f64_0_3 = 5404319552844595 / 18014398509481984"

definition f64_mean_0_2 :: real where "f64_mean_0_2 = 7205759403792795 / 36028797018963968"

definition f64_huge :: real where "f64_huge = 2 ^ 1023"

definition ex_kernels :: kernels where
  "ex_kernels =
     \<lparr>imputer_mean = (\<lambda>ps.
          if ps = [1, 3] then Some 2
          else if ps = [- 200] then Some (- 200)
          else if ps = [f64_0_1, f64_0_2, f64_0_3] then Some f64_mean_0_2
          else if ps = [f64_huge, f64_huge] then None
          else undefined),
      as_float64 = (\<lambda>x.
          if x \<in> set [1, 3, - 200, f64_0_1, f64_0_2, f64_0_3] then x else undefined),
      standard_scaler = (\<lambda>xs.
          if xs = [Some 1, Some 3] then [Some (- 1), Some 1]
          else if xs = [Some 1100, Some 1100] then [Some 0, Some 0]
          else if xs = [Some 2, Some 6] then [Some (- 1), Some 1]
          else undefined),
      minmax_scaler = (\<lambda>xs.
          if xs = [Some 10, Some 20] then [Some 0, Some 1]
          else if xs = [Some 4, Some 4] then [Some 0, Some 0]
          else if xs = [Some (1 / 2), Some 1] then [Some 0, Some 1]
          else undefined)\<rparr>"

text \<open>
  Four readings, two of them without a \<^verbatim>\<open>CO(GT)\<close> value; a frame whose only
  \<^verbatim>\<open>CO(GT)\<close> reading is the sentinel itself; four readings whose three values are
  0.1, 0.2 and 0.3, before and after the imputation; and three readings with two huge
  values.
\<close>

definition ex_missing :: table where
  "ex_missing = \<lparr>index = [0, 1, 2, 3],
     columns = [(''Time'', StrCol [Some ''18:00:00'', Some ''19:00:00'', None, Some ''21:00:00'']),
                (''CO(GT)'', NumCol [Some 1, None, Some 3, None]),
                (''PT08.S1(CO)'', NumCol [Some 1100, Some 1200, Some 1300, Some (- 200)])]\<rparr>"

definition ex_only_sentinel :: table where
  "ex_only_sentinel = \<lparr>index = [0, 1],
     columns = [(''CO(GT)'', NumCol [Some (- 200), None]),
                (''T'', NumCol [Some 10, Some 11])]\<rparr>"




text \<open>
  Two readings that pass the filter, with the same \<^verbatim>\<open>PT08.S1(CO)\<close> and the same \<^verbatim>\<open>RH\<close>
  value in both and no date in the second; the frame the scaler makes of them, and the
  frame the feature deriver makes of that. \<open>ex_parse\<close> gives the timestamp pandas reads
  from the one string the frame holds, 2004-03-10 18:00:00, says that a second string
  does not parse, and is left unspecified on every other string.
\<close>

definition ex_flat :: table where
  "ex_flat = \<lparr>index = [0, 1],
     columns = [(''Date'', StrCol [Some ''2004-03-10'', None]),
                (''Time'', StrCol [Some ''18:00:00'', Some ''19:00:00'']),
                (''CO(GT)'', NumCol [Some 1, Some 3]),
                (''PT08.S1(CO)'', NumCol [Some 1100, Some 1100]),
                (''C6H6(GT)'', NumCol [Some 2, Some 6]),
                (''T'', NumCol [Some 10, Some 20]),
                (''RH'', NumCol [Some 4, Some 4]),
                (''AH'', NumCol [Some (1 / 2), Some 1])]\<rparr>"

definition ex_flat_scaled :: table where
  "ex_flat_scaled = \<lparr>index = [0, 1],
     columns = [(''Date'', StrCol [Some ''2004-03-10'', None]),
                (''Time'', StrCol [Some ''18:00:00'', Some ''19:00:00'']),
                (''CO(GT)'', NumCol [Some (- 1), Some 1]),
                (''PT08.S1(CO)'', NumCol [Some 0, Some 0]),
                (''C6H6(GT)'', NumCol [Some (- 1), Some 1]),
                (''T'', NumCol [Some 0, Some 1]),
                (''RH'', NumCol [Some 0, Some 0]),
                (''AH'', NumCol [Some 0, Some 1])]\<rparr>"

definition ex_parse :: parser where
  "ex_parse ctx s =
     (if s = ''2004-03-10 18:00:00'' then Some 1078941600000000000
      else if s = ''2004-03-10 not a time'' then None
      else undefined)"

definition ex_flat_final :: table where
  "ex_flat_final = \<lparr>index = [0, 1],
     columns = [(''Date'', StrCol [Some ''2004-03-10'', None]),
                (''Time'', StrCol [Some ''18:00:00'', Some ''19:00:00'']),
                (''CO(GT)'', NumCol [Some (- 1), Some 1]),
                (''PT08.S1(CO)'', NumCol [Some 0, Some 0]),
                (''C6H6(GT)'', NumCol [Some (- 1), Some 1]),
                (''T'', NumCol [Some 0, Some 1]),
                (''RH'', NumCol [Some 0, Some 0]),
                (''AH'', NumCol [Some 0, Some 1]),
                (''DateTime'', TsCol [Some 1078941600000000000, None]),
                (''Hour'', NumCol [Some 18, None]),
                (''Day'', NumCol [Some 10, None])]\<rparr>"

text \<open>Two rows of which the second has a time that does not parse.\<close>

definition ex_bad_time :: table where
  "ex_bad_time = \<lparr>index = [0, 1],
     columns = [(''Date'', StrCol [Some ''2004-03-10'', Some ''2004-03-10'']),
                (''Time'', StrCol [Some ''18:00:00'', Some ''not a time''])]\<rparr>"

section \<open>Boolean-mask selection\<close>

lemma select_nth:
  assumes "length bs = length xs"
  shows "select bs xs = map ((!) xs) (filter ((!) bs) [0..<length xs])"
proof -
  have z: "zip xs bs = map (\<lambda>i. (xs ! i, bs ! i)) [0..<length xs]"
    using assms by (intro nth_equalityI) simp_all
  show ?thesis
    unfolding select_def z by (simp add: filter_map comp_def)
qed

lemma cells_take_col: "cells (take_col bs c) = select bs (cells c)"
  by (cases c) (simp_all add: select_def zip_map1 filter_map comp_def case_prod_unfold)

lemma length_cells [simp]: "length (cells c) = col_len c"
  by (cases c) simp_all

lemma length_keep_mask [simp]: "length (keep_mask t) = nrows t"
  by (simp add: keep_mask_def all_axis1_def)

lemma wf_table_col_len:
  "wf_table t \<Longrightarrow> (n, c) \<in> set (columns t) \<Longrightarrow> col_len c = nrows t"
  by (auto simp: wf_table_def list_all_iff)

lemma ne_scalar_nth:
  "i < col_len c \<Longrightarrow> ne_scalar c v ! i = (cells c ! i \<noteq> NumV v)"
  by (cases c) (auto split: option.splits)

lemma keep_mask_nth:
  assumes "wf_table t" "i < nrows t"
  shows "keep_mask t ! i \<longleftrightarrow> (\<forall>(n, v) \<in> set (row_at t i). v \<noteq> NumV (- 200))"
proof -
  have "ne_scalar c (- 200) ! i = (cells c ! i \<noteq> NumV (- 200))"
    if "c \<in> snd ` set (columns t)" for c
    using assms that by (intro ne_scalar_nth) (auto simp: wf_table_def list_all_iff)
  then show ?thesis
    using assms(2)
    by (simp add: keep_mask_def all_axis1_def row_at_def list_all_iff case_prod_unfold)
qed

lemma rows_drop_invalid:
  assumes wf: "wf_table t"
  shows "rows (drop_invalid t) =
         filter (\<lambda>r. \<forall>(n, v) \<in> set r. v \<noteq> NumV (- 200)) (rows t)"
proof -
  let ?km = "keep_mask t"
  let ?sel = "filter ((!) ?km) [0..<nrows t]"
  have idx: "index (drop_invalid t) = map ((!) (index t)) ?sel"
    by (simp add: drop_invalid_def Let_def select_nth nrows_def)
  have n': "nrows (drop_invalid t) = length ?sel"
    by (simp add: nrows_def idx)
  have row: "row_at (drop_invalid t) k = row_at t (?sel ! k)" if "k < length ?sel" for k
  proof -
    have "cells (take_col ?km c) ! k = cells c ! (?sel ! k)"
      if "(n, c) \<in> set (columns t)" for n c
      using wf_table_col_len [OF wf that] \<open>k < length ?sel\<close>
      by (simp add: cells_take_col select_nth)
    then show ?thesis
      by (auto simp: row_at_def drop_invalid_def Let_def)
  qed
  have "rows (drop_invalid t) = map (\<lambda>k. row_at t (?sel ! k)) [0..<length ?sel]"
    unfolding rows_def n' using row by simp
  also have "\<dots> = map (row_at t) ?sel"
    by (simp add: map_nth flip: map_map [unfolded comp_def])
  also have "\<dots> = filter (\<lambda>r. \<forall>(n, v) \<in> set r. v \<noteq> NumV (- 200)) (rows t)"
    unfolding rows_def filter_map comp_def
    using keep_mask_nth [OF wf]
    by (auto intro!: arg_cong [where f = "map (row_at t)"] filter_cong)
  finally show ?thesis .
qed

lemma wf_ex_sentinels: "wf_table ex_sentinels"
  by (simp add: wf_table_def ex_sentinels_def nrows_def)

section \<open>The sentinel filter\<close>

text \<open>
  Claim C1. Read row by row, the frame after the filter of line 261 is the frame before
  it without the rows that hold the number \<open>-200\<close> in some column: exactly those rows
  are removed, the others stay in their order, and in every row that remains no
  column equals \<open>-200\<close>.
\<close>

theorem sentinel_filter_rows:
  assumes "wf_table t"
  shows "rows (drop_invalid t) = filter (\<lambda>r. \<forall>(n, v) \<in> set r. v \<noteq> NumV (- 200)) (rows t)
       \<and> (\<forall>r \<in> set (rows (drop_invalid t)). \<forall>(n, v) \<in> set r. v \<noteq> NumV (- 200))"
  using rows_drop_invalid [OF assms] by simp

theorem sentinel_filter_rows_witness:
  "wf_table ex_sentinels \<and>
   rows (drop_invalid ex_sentinels) =
     [[(''Date'', StrV ''10/03/2004''), (''CO(GT)'', NumV 3), (''PT08.S1(CO)'', NumV 1200)]]"
proof -
  have r: "rows ex_sentinels =
     [[(''Date'', StrV ''10/03/2004''), (''CO(GT)'', NumV (- 200)), (''PT08.S1(CO)'', NumV 1100)],
      [(''Date'', StrV ''10/03/2004''), (''CO(GT)'', NumV 2), (''PT08.S1(CO)'', NumV (- 200))],
      [(''Date'', StrV ''10/03/2004''), (''CO(GT)'', NumV 3), (''PT08.S1(CO)'', NumV 1200)]]"
    by (simp add: rows_def ex_sentinels_def nrows_def row_at_def upt_rec)
  show ?thesis
    using sentinel_filter_rows [OF wf_ex_sentinels] wf_ex_sentinels by (simp add: r)
qed

lemma drop_invalid_sel:
  assumes wf: "wf_table t"
  shows "index (drop_invalid t) = map ((!) (index t)) (filter ((!) (keep_mask t)) [0..<nrows t])"
    and "rows (drop_invalid t) = map (row_at t) (filter ((!) (keep_mask t)) [0..<nrows t])"
proof -
  let ?km = "keep_mask t"
  let ?sel = "filter ((!) ?km) [0..<nrows t]"
  show idx: "index (drop_invalid t) = map ((!) (index t)) ?sel"
    by (simp add: drop_invalid_def Let_def select_nth nrows_def)
  have n': "nrows (drop_invalid t) = length ?sel"
    by (simp add: nrows_def idx)
  have row: "row_at (drop_invalid t) k = row_at t (?sel ! k)" if "k < length ?sel" for k
  proof -
    have "cells (take_col ?km c) ! k = cells c ! (?sel ! k)"
      if "(n, c) \<in> set (columns t)" for n c
      using wf_table_col_len [OF wf that] \<open>k < length ?sel\<close>
      by (simp add: cells_take_col select_nth)
    then show ?thesis
      by (auto simp: row_at_def drop_invalid_def Let_def)
  qed
  have "rows (drop_invalid t) = map (\<lambda>k. row_at t (?sel ! k)) [0..<length ?sel]"
    unfolding rows_def n' using row by simp
  also have "\<dots> = map (row_at t) ?sel"
    by (simp add: map_nth flip: map_map [unfolded comp_def])
  finally show "rows (drop_invalid t) = map (row_at t) ?sel" .
qed

lemma keep_mask_numeric:
  assumes "wf_table t" "i < nrows t"
  shows "keep_mask t ! i \<longleftrightarrow>
         list_all (\<lambda>(n, c). case c of NumCol xs \<Rightarrow> xs ! i \<noteq> Some (- 200)
                                     | StrCol ss \<Rightarrow> True | TsCol ds \<Rightarrow> True) (columns t)"
proof -
  have "ne_scalar c (- 200) ! i \<longleftrightarrow>
        (case c of NumCol xs \<Rightarrow> xs ! i \<noteq> Some (- 200) | StrCol ss \<Rightarrow> True | TsCol ds \<Rightarrow> True)"
    if "c \<in> snd ` set (columns t)" for c
  proof -
    from that assms have "i < col_len c"
      by (auto simp: wf_table_def list_all_iff)
    then show ?thesis by (cases c) simp_all
  qed
  then show ?thesis
    using assms(2)
    by (simp add: keep_mask_def all_axis1_def list_all_iff case_prod_unfold)
qed

text \<open>
  Claim C10. The rows the sentinel filter keeps, each with its label and all its cells,
  are exactly the rows at the positions where no numeric column holds \<open>-200\<close>, in their
  order; every other row is removed, label and cells. A string column such as
  \<^verbatim>\<open>Date\<close> or \<^verbatim>\<open>Time\<close> is not looked at: whatever it holds, the test \<^verbatim>\<open>!= -200\<close> is true
  for it and it never removes a row.
\<close>

theorem sentinel_filter_numeric_only:
  assumes "wf_table t"
  shows "zip (index (drop_invalid t)) (rows (drop_invalid t)) =
         map (\<lambda>i. (index t ! i, row_at t i))
           (filter (\<lambda>i. list_all (\<lambda>(n, c). case c of NumCol xs \<Rightarrow> xs ! i \<noteq> Some (- 200)
                                                  | StrCol ss \<Rightarrow> True | TsCol ds \<Rightarrow> True)
                           (columns t))
              [0..<nrows t])"
proof -
  let ?sel = "filter ((!) (keep_mask t)) [0..<nrows t]"
  have "zip (index (drop_invalid t)) (rows (drop_invalid t)) =
        map (\<lambda>i. (index t ! i, row_at t i)) ?sel"
    unfolding drop_invalid_sel [OF assms] by (simp add: zip_map_map zip_same_conv_map)
  also have "?sel = filter (\<lambda>i. list_all (\<lambda>(n, c). case c of NumCol xs \<Rightarrow> xs ! i \<noteq> Some (- 200)
                                                  | StrCol ss \<Rightarrow> True | TsCol ds \<Rightarrow> True)
                           (columns t)) [0..<nrows t]"
    using keep_mask_numeric [OF assms] by (intro filter_cong) simp_all
  finally show ?thesis .
qed

theorem sentinel_filter_numeric_only_witness:
  "wf_table ex_sentinels \<and>
   zip (index (drop_invalid ex_sentinels)) (rows (drop_invalid ex_sentinels)) =
     [(2, [(''Date'', StrV ''10/03/2004''), (''CO(GT)'', NumV 3), (''PT08.S1(CO)'', NumV 1200)])]"
  using sentinel_filter_numeric_only [OF wf_ex_sentinels] wf_ex_sentinels
  by (simp add: ex_sentinels_def nrows_def row_at_def upt_rec)

section \<open>Columns by name\<close>

lemma get_col_set_col [simp]:
  "get_col (set_col t n c) m = (if m = n then Some c else get_col t m)"
  by (simp add: get_col_def set_col_def update_conv')

lemma index_set_col [simp]: "index (set_col t n c) = index t"
  by (simp add: set_col_def)

lemma nrows_set_col [simp]: "nrows (set_col t n c) = nrows t"
  by (simp add: nrows_def)

lemma set_update_subset: "set (AList.update k v al) \<subseteq> insert (k, v) (set al)"
  by (induction al) auto

lemma wf_table_set_col:
  assumes "wf_table t" "col_len c = nrows t"
  shows "wf_table (set_col t n c)"
  using assms set_update_subset [of n c "columns t"]
  by (auto simp: wf_table_def set_col_def distinct_update list_all_iff nrows_def)

lemma get_col_mem: "get_col t n = Some c \<Longrightarrow> (n, c) \<in> set (columns t)"
  by (simp add: get_col_def map_of_SomeD)

lemma mem_get_col: "wf_table t \<Longrightarrow> (n, c) \<in> set (columns t) \<Longrightarrow> get_col t n = Some c"
  by (simp add: get_col_def wf_table_def)




section \<open>The cleaner\<close>

lemma impute_ok:
  assumes "get_col t ''CO(GT)'' = Some (NumCol xs)" "xs \<noteq> []"
    "imputer_mean K (present xs) = Some m"
  shows "impute K t = Inr (set_col t ''CO(GT)''
           (NumCol (map (\<lambda>c. case c of None \<Rightarrow> Some m | Some x \<Rightarrow> Some (as_float64 K x)) xs)))"
  using assms by (simp add: impute_def)


lemmas eval_frame =
  get_col_def set_col_def nrows_def wf_table_def keep_mask_def all_axis1_def select_def
  drop_invalid_def impute_def cleaner_def ex_kernels_def upt_rec



text \<open>
  Claim C5, as the notebook has it. The value written into the missing entries is the
  mean the imputer fits from the values present, sentinels included, so it can be
  \<open>-200\<close>: in \<open>ex_only_sentinel\<close> the second row passes the filter before the imputation
  and is removed after it. When the mean \<open>m\<close> the imputer fits is not \<open>-200\<close>, the value
  written is not the sentinel, and the filter decides about a row that was missing its
  value as it would have without the imputation.
\<close>

theorem imputed_value_not_sentinel:
  assumes wf: "wf_table t"
    and co: "get_col t ''CO(GT)'' = Some (NumCol xs)"
    and fit: "imputer_mean K (present xs) = Some m" and ne: "m \<noteq> - 200"
    and i: "i < nrows t" and mi: "xs ! i = None"
  shows "\<exists>t1 ys. impute K t = Inr t1 \<and> get_col t1 ''CO(GT)'' = Some (NumCol ys) \<and>
           ys ! i = Some m \<and> ys ! i \<noteq> Some (- 200) \<and>
           keep_mask t1 ! i = keep_mask t ! i"
proof -
  define ys where "ys = map (\<lambda>c. case c of None \<Rightarrow> Some m | Some x \<Rightarrow> Some (as_float64 K x)) xs"
  define t1 where "t1 = set_col t ''CO(GT)'' (NumCol ys)"
  have len_xs: "length xs = nrows t"
    using wf_table_col_len [OF wf get_col_mem [OF co]] by simp
  with i have nonempty: "xs \<noteq> []" by auto
  have imp: "impute K t = Inr t1"
    using impute_ok [OF co nonempty fit] by (simp add: t1_def ys_def)
  have g1: "get_col t1 ''CO(GT)'' = Some (NumCol ys)"
    by (simp add: t1_def)
  have yi: "ys ! i = Some m"
    using i mi len_xs by (simp add: ys_def)
  have wf1: "wf_table t1"
    unfolding t1_def by (rule wf_table_set_col [OF wf]) (simp add: ys_def len_xs)
  have col: "ne_scalar c' (- 200) ! i"
    if "(n, c') \<in> set (columns t1)" "n = ''CO(GT)''" for n c'
  proof -
    from mem_get_col [OF wf1 that(1)] that(2) g1 have "c' = NumCol ys" by simp
    then show ?thesis using yi ne i len_xs by (simp add: ys_def)
  qed
  have col0: "ne_scalar c (- 200) ! i"
    if "(n, c) \<in> set (columns t)" "n = ''CO(GT)''" for n c
  proof -
    from mem_get_col [OF wf that(1)] that(2) co have "c = NumCol xs" by simp
    then show ?thesis using mi i len_xs by simp
  qed
  have other: "(n, c) \<in> set (columns t1) \<longleftrightarrow> (n, c) \<in> set (columns t)"
    if "n \<noteq> ''CO(GT)''" for n c
  proof
    assume "(n, c) \<in> set (columns t1)"
    from mem_get_col [OF wf1 this] that have "get_col t n = Some c" by (simp add: t1_def)
    then show "(n, c) \<in> set (columns t)" by (rule get_col_mem)
  next
    assume "(n, c) \<in> set (columns t)"
    from mem_get_col [OF wf this] that have "get_col t1 n = Some c" by (simp add: t1_def)
    then show "(n, c) \<in> set (columns t1)" by (rule get_col_mem)
  qed
  have "keep_mask t1 ! i \<longleftrightarrow> (\<forall>(n, c) \<in> set (columns t1). ne_scalar c (- 200) ! i)"
    using i by (simp add: keep_mask_def all_axis1_def list_all_iff case_prod_unfold t1_def)
  also have "\<dots> \<longleftrightarrow> (\<forall>(n, c) \<in> set (columns t). ne_scalar c (- 200) ! i)"
  proof (intro iffI ballI; clarify)
    fix n c
    assume a: "\<forall>(n, c) \<in> set (columns t1). ne_scalar c (- 200) ! i"
      and m: "(n, c) \<in> set (columns t)"
    show "ne_scalar c (- 200) ! i"
    proof (cases "n = ''CO(GT)''")
      case True
      with m show ?thesis by (rule col0)
    next
      case False
      with m other have "(n, c) \<in> set (columns t1)" by simp
      with a show ?thesis by blast
    qed
  next
    fix n c
    assume a: "\<forall>(n, c) \<in> set (columns t). ne_scalar c (- 200) ! i"
      and m: "(n, c) \<in> set (columns t1)"
    show "ne_scalar c (- 200) ! i"
    proof (cases "n = ''CO(GT)''")
      case True
      with m show ?thesis by (rule col)
    next
      case False
      with m other have "(n, c) \<in> set (columns t)" by simp
      with a show ?thesis by blast
    qed
  qed
  also have "\<dots> \<longleftrightarrow> keep_mask t ! i"
    using i by (simp add: keep_mask_def all_axis1_def list_all_iff case_prod_unfold)
  finally have km: "keep_mask t1 ! i = keep_mask t ! i" .
  show ?thesis
    using imp g1 yi ne km by auto
qed

theorem imputed_value_sentinel_counterexample:
  "impute ex_kernels ex_only_sentinel = Inr \<lparr>index = [0, 1],
     columns = [(''CO(GT)'', NumCol [Some (- 200), Some (- 200)]),
                (''T'', NumCol [Some 10, Some 11])]\<rparr> \<and>
   keep_mask ex_only_sentinel = [False, True] \<and>
   cleaner ex_kernels ex_only_sentinel = Inr \<lparr>index = [],
     columns = [(''CO(GT)'', NumCol []), (''T'', NumCol [])]\<rparr>"
  by (simp add: ex_only_sentinel_def eval_frame)

theorem imputed_value_not_sentinel_witness:
  "wf_table ex_missing \<and>
   get_col ex_missing ''CO(GT)'' = Some (NumCol [Some 1, None, Some 3, None]) \<and>
   imputer_mean ex_kernels (present [Some 1, None, Some 3, None]) = Some 2 \<and>
   (2::real) \<noteq> - 200 \<and>
   (1::nat) < nrows ex_missing \<and> [Some (1::real), None, Some 3, None] ! 1 = None \<and>
   keep_mask ex_missing ! 1 \<and>
   (\<exists>t1 ys. impute ex_kernels ex_missing = Inr t1 \<and> get_col t1 ''CO(GT)'' = Some (NumCol ys) \<and>
      ys ! 1 = Some 2 \<and> keep_mask t1 ! 1)"
proof -
  have wf: "wf_table ex_missing"
    and co: "get_col ex_missing ''CO(GT)'' = Some (NumCol [Some 1, None, Some 3, None])"
    and i: "(1::nat) < nrows ex_missing" and mi: "[Some (1::real), None, Some 3, None] ! 1 = None"
    and km: "keep_mask ex_missing ! 1"
    by (simp_all add: ex_missing_def eval_frame)
  have m: "imputer_mean ex_kernels (present [Some 1, None, Some 3, None]) = Some 2"
    by (simp add: ex_kernels_def)
  have ne: "(2::real) \<noteq> - 200" by simp
  from imputed_value_not_sentinel [OF wf co m ne i mi]
  obtain t1 ys where "impute ex_kernels ex_missing = Inr t1"
    "get_col t1 ''CO(GT)'' = Some (NumCol ys)" "ys ! 1 = Some 2"
    "keep_mask t1 ! 1 = keep_mask ex_missing ! 1"
    by blast
  with km have "\<exists>t1 ys. impute ex_kernels ex_missing = Inr t1 \<and>
      get_col t1 ''CO(GT)'' = Some (NumCol ys) \<and> ys ! 1 = Some 2 \<and> keep_mask t1 ! 1"
    by auto
  with wf co m ne i mi km show ?thesis
    by (intro conjI)
qed

section \<open>The scaler\<close>

lemma fit_transform_three:
  assumes "get_col t a = Some (NumCol xa)" "get_col t b = Some (NumCol xb)"
    "get_col t c = Some (NumCol xc)" "0 < nrows t"
  shows "fit_transform f t [a, b, c] =
         Inr (set_col (set_col (set_col t a (NumCol (f xa))) b (NumCol (f xb))) c (NumCol (f xc)))"
  using assms by (simp add: fit_transform_def)

lemma scaler_result:
  assumes "get_col t ''CO(GT)'' = Some (NumCol x1)" "get_col t ''PT08.S1(CO)'' = Some (NumCol x2)"
    "get_col t ''C6H6(GT)'' = Some (NumCol x3)" "get_col t ''T'' = Some (NumCol x4)"
    "get_col t ''RH'' = Some (NumCol x5)" "get_col t ''AH'' = Some (NumCol x6)" "0 < nrows t"
  shows "scaler K t = Inr
    (set_col (set_col (set_col
      (set_col (set_col (set_col t
          ''CO(GT)'' (NumCol (standard_scaler K x1)))
          ''PT08.S1(CO)'' (NumCol (standard_scaler K x2)))
          ''C6H6(GT)'' (NumCol (standard_scaler K x3)))
       ''T'' (NumCol (minmax_scaler K x4)))
       ''RH'' (NumCol (minmax_scaler K x5)))
       ''AH'' (NumCol (minmax_scaler K x6)))"
proof -
  let ?t1 = "set_col (set_col (set_col t
          ''CO(GT)'' (NumCol (standard_scaler K x1)))
          ''PT08.S1(CO)'' (NumCol (standard_scaler K x2)))
          ''C6H6(GT)'' (NumCol (standard_scaler K x3))"
  have 1: "fit_transform (standard_scaler K) t std_cols = Inr ?t1"
    unfolding std_cols_def using assms by (intro fit_transform_three)
  have 2: "fit_transform (minmax_scaler K) ?t1 minmax_cols =
           Inr (set_col (set_col (set_col ?t1 ''T'' (NumCol (minmax_scaler K x4)))
               ''RH'' (NumCol (minmax_scaler K x5))) ''AH'' (NumCol (minmax_scaler K x6)))"
    unfolding minmax_cols_def using assms by (intro fit_transform_three) simp_all
  show ?thesis
    by (simp add: scaler_def 1 2)
qed


lemma ex_flat_cols:
  "get_col ex_flat ''CO(GT)'' = Some (NumCol [Some 1, Some 3])"
  "get_col ex_flat ''PT08.S1(CO)'' = Some (NumCol [Some 1100, Some 1100])"
  "get_col ex_flat ''C6H6(GT)'' = Some (NumCol [Some 2, Some 6])"
  "get_col ex_flat ''T'' = Some (NumCol [Some 10, Some 20])"
  "get_col ex_flat ''RH'' = Some (NumCol [Some 4, Some 4])"
  "get_col ex_flat ''AH'' = Some (NumCol [Some (1 / 2), Some 1])"
  "0 < nrows ex_flat"
  by (simp_all add: ex_flat_def get_col_def nrows_def)

lemma ex_flat_values:
  "standard_scaler ex_kernels [Some 1, Some 3] = [Some (- 1), Some 1]"
  "standard_scaler ex_kernels [Some 1100, Some 1100] = [Some 0, Some 0]"
  "standard_scaler ex_kernels [Some 2, Some 6] = [Some (- 1), Some 1]"
  "minmax_scaler ex_kernels [Some 10, Some 20] = [Some 0, Some 1]"
  "minmax_scaler ex_kernels [Some 4, Some 4] = [Some 0, Some 0]"
  "minmax_scaler ex_kernels [Some (1 / 2), Some 1] = [Some 0, Some 1]"
  by (simp_all add: ex_kernels_def)

lemma scaler_ex_flat: "scaler ex_kernels ex_flat = Inr ex_flat_scaled"
  unfolding scaler_result [OF ex_flat_cols] ex_flat_values
  by (simp add: ex_flat_def ex_flat_scaled_def set_col_def)



section \<open>The feature deriver\<close>

lemma present_Some_mem: "Some x \<in> set xs \<longleftrightarrow> x \<in> set (present xs)"
proof (induction xs)
  case Nil
  show ?case by simp
next
  case (Cons c xs)
  then show ?case by (cases c) auto
qed

lemma concat_date_time_nth:
  assumes "i < length ds" "i < length ts"
  shows "concat_date_time ds ts ! i = str_add (str_add (ds ! i) (Some '' '')) (ts ! i)"
  using assms by (simp add: concat_date_time_def)

lemma length_concat_date_time [simp]:
  "length (concat_date_time ds ts) = min (length ds) (length ts)"
  by (simp add: concat_date_time_def)

lemma str_add_None_iff: "str_add a b = None \<longleftrightarrow> a = None \<or> b = None"
  by (cases a; cases b) simp_all

lemma to_datetime_Inl:
  assumes "Some s \<in> set ss" "parse (present ss) s = None"
  shows "to_datetime parse ss = Inl ValueError"
  using assms by (auto simp: to_datetime_def Let_def present_Some_mem)

lemma to_datetime_Inr_D:
  assumes "to_datetime parse ss = Inr dts"
  shows "dts = map (\<lambda>c. case c of None \<Rightarrow> None | Some s \<Rightarrow> parse (present ss) s) ss"
    and "\<And>s. Some s \<in> set ss \<Longrightarrow> \<exists>ts. parse (present ss) s = Some ts"
  using assms by (auto simp: to_datetime_def Let_def present_Some_mem split: if_splits)

lemma dt_hour_range: "0 \<le> dt_hour ts \<and> dt_hour ts \<le> 23"
proof -
  let ?r = "ts mod ns_per_day"
  have "0 \<le> ?r" "?r < 86400000000000"
    by (simp_all add: ns_per_day_def)
  then have "0 \<le> ?r div 3600000000000" "?r div 3600000000000 \<le> 23"
    using zdiv_mono1 [of ?r 86399999999999 3600000000000]
    by (simp_all add: pos_imp_zdiv_nonneg_iff)
  then show ?thesis
    by (simp add: dt_hour_def ns_per_hour_def)
qed

lemma month_walk_range:
  assumes "0 \<le> d" "\<forall>l \<in> set ls. l \<le> 31"
  shows "1 \<le> month_walk d ls \<and> month_walk d ls \<le> 31"
  using assms by (induction ls arbitrary: d) auto

lemma days_to_yearsdays_nonneg: "0 \<le> snd (days_to_yearsdays z)"
  by (simp add: days_to_yearsdays_def Let_def)

lemma dt_day_range: "1 \<le> dt_day ts \<and> dt_day ts \<le> 31"
proof -
  obtain y d where yd: "days_to_yearsdays (ts div ns_per_day) = (y, d)"
    by (cases "days_to_yearsdays (ts div ns_per_day)")
  with days_to_yearsdays_nonneg [of "ts div ns_per_day"] have "0 \<le> d" by simp
  moreover have "\<forall>l \<in> set (month_lengths (is_leapyear y)). l \<le> 31"
    by (simp add: month_lengths_def)
  ultimately show ?thesis
    using month_walk_range by (simp add: dt_day_def yd)
qed

text \<open>
  Claim C7, as the notebook has it. A row in which the date or the time is missing has
  no string to parse; it is given NaT and does not make the feature deriver fail
  (the second row of \<open>ex_flat_scaled\<close>). If in some row both are present and the string
  built from the date, a space and the time does not parse, the feature deriver
  raises: it returns an error and no frame, so no \<^verbatim>\<open>DateTime\<close>, \<^verbatim>\<open>Hour\<close> or \<^verbatim>\<open>Day\<close>
  column exists for any row, and no row is skipped.
\<close>

theorem unparseable_row_fails:
  assumes "get_col t ''Date'' = Some (StrCol ds)" "get_col t ''Time'' = Some (StrCol ts)"
    and "i < length ds" "i < length ts" "ds ! i = Some d" "ts ! i = Some tm"
    and "parse (present (concat_date_time ds ts)) (d @ '' '' @ tm) = None"
  shows "feature_deriver parse t = Inl ValueError"
proof -
  have "concat_date_time ds ts ! i = Some (d @ '' '' @ tm)"
    using assms(3-6) by (simp add: concat_date_time_nth)
  moreover have "i < length (concat_date_time ds ts)"
    using assms(3,4) by simp
  ultimately have "Some (d @ '' '' @ tm) \<in> set (concat_date_time ds ts)"
    by (metis nth_mem)
  then have "to_datetime parse (concat_date_time ds ts) = Inl ValueError"
    using assms(7) by (rule to_datetime_Inl)
  then show ?thesis
    using assms(1,2) by (simp add: feature_deriver_def)
qed

lemma feature_deriver_Inr_D:
  assumes "feature_deriver parse t = Inr t'"
  shows "\<exists>ds ts dts. get_col t ''Date'' = Some (StrCol ds) \<and> get_col t ''Time'' = Some (StrCol ts) \<and>
     to_datetime parse (concat_date_time ds ts) = Inr dts \<and>
     t' = set_col (set_col (set_col t ''DateTime'' (TsCol dts))
            ''Hour'' (NumCol (map (map_option (\<lambda>x. real_of_int (dt_hour x))) dts)))
            ''Day'' (NumCol (map (map_option (\<lambda>x. real_of_int (dt_day x))) dts))"
  using assms
  by (auto simp: feature_deriver_def Let_def split: option.splits column.splits sum.splits)

text \<open>
  Claim C4, as the notebook has it. When the feature deriver returns, then in every row
  where both \<^verbatim>\<open>Date\<close> and \<^verbatim>\<open>Time\<close> are present, \<^verbatim>\<open>DateTime\<close> is the timestamp parsed from
  the date, a space and the time, \<^verbatim>\<open>Hour\<close> is its hour and lies in \<open>0..23\<close>, and \<^verbatim>\<open>Day\<close>
  is its day of month and lies in \<open>1..31\<close>. In a row where the date or the time is
  missing, \<^verbatim>\<open>DateTime\<close>, \<^verbatim>\<open>Hour\<close> and \<^verbatim>\<open>Day\<close> are missing too: the second row of
  \<open>ex_flat\<close> passes cleaner and scaler and ends without an hour and a day.
\<close>

theorem derived_features:
  assumes wf: "wf_table t" and run: "feature_deriver parse t = Inr t'"
  shows "\<exists>ds ts dts hs dys.
     get_col t' ''Date'' = Some (StrCol ds) \<and> get_col t' ''Time'' = Some (StrCol ts) \<and>
     get_col t' ''DateTime'' = Some (TsCol dts) \<and>
     get_col t' ''Hour'' = Some (NumCol hs) \<and> get_col t' ''Day'' = Some (NumCol dys) \<and>
     nrows t' = nrows t \<and> length dts = nrows t \<and> length hs = nrows t \<and> length dys = nrows t \<and>
     (\<forall>i d tm. i < nrows t \<and> ds ! i = Some d \<and> ts ! i = Some tm \<longrightarrow>
        (\<exists>x. parse (present (concat_date_time ds ts)) (d @ '' '' @ tm) = Some x \<and>
             dts ! i = Some x \<and>
             hs ! i = Some (real_of_int (dt_hour x)) \<and> 0 \<le> dt_hour x \<and> dt_hour x \<le> 23 \<and>
             dys ! i = Some (real_of_int (dt_day x)) \<and> 1 \<le> dt_day x \<and> dt_day x \<le> 31)) \<and>
     (\<forall>i. i < nrows t \<and> (ds ! i = None \<or> ts ! i = None) \<longrightarrow>
        dts ! i = None \<and> hs ! i = None \<and> dys ! i = None)"
proof -
  from feature_deriver_Inr_D [OF run] obtain ds ts dts where
    gd: "get_col t ''Date'' = Some (StrCol ds)" and gt: "get_col t ''Time'' = Some (StrCol ts)"
    and td: "to_datetime parse (concat_date_time ds ts) = Inr dts"
    and t': "t' = set_col (set_col (set_col t ''DateTime'' (TsCol dts))
            ''Hour'' (NumCol (map (map_option (\<lambda>x. real_of_int (dt_hour x))) dts)))
            ''Day'' (NumCol (map (map_option (\<lambda>x. real_of_int (dt_day x))) dts))"
    by blast
  let ?ss = "concat_date_time ds ts"
  let ?hs = "map (map_option (\<lambda>x. real_of_int (dt_hour x))) dts"
  let ?dys = "map (map_option (\<lambda>x. real_of_int (dt_day x))) dts"
  have lds: "length ds = nrows t" and lts: "length ts = nrows t"
    using wf_table_col_len [OF wf get_col_mem [OF gd]] wf_table_col_len [OF wf get_col_mem [OF gt]]
    by simp_all
  note dts = to_datetime_Inr_D(1) [OF td]
  have ldts: "length dts = nrows t"
    by (simp add: dts lds lts)
  have both: "\<exists>x. parse (present ?ss) (d @ '' '' @ tm) = Some x \<and> dts ! i = Some x \<and>
             ?hs ! i = Some (real_of_int (dt_hour x)) \<and> 0 \<le> dt_hour x \<and> dt_hour x \<le> 23 \<and>
             ?dys ! i = Some (real_of_int (dt_day x)) \<and> 1 \<le> dt_day x \<and> dt_day x \<le> 31"
    if "i < nrows t" "ds ! i = Some d" "ts ! i = Some tm" for i d tm
  proof -
    have si: "?ss ! i = Some (d @ '' '' @ tm)"
      using that lds lts by (simp add: concat_date_time_nth)
    moreover have li: "i < length ?ss"
      using that(1) lds lts by simp
    ultimately have "Some (d @ '' '' @ tm) \<in> set ?ss"
      by (metis nth_mem)
    from to_datetime_Inr_D(2) [OF td this] obtain x
      where x: "parse (present ?ss) (d @ '' '' @ tm) = Some x" by blast
    have di: "dts ! i = Some x"
      using li si x by (simp add: dts)
    from dt_hour_range [of x] dt_day_range [of x] x di that(1) ldts show ?thesis
      by simp
  qed
  have missing: "dts ! i = None \<and> ?hs ! i = None \<and> ?dys ! i = None"
    if "i < nrows t" "ds ! i = None \<or> ts ! i = None" for i
  proof -
    have "?ss ! i = None"
      using that lds lts by (auto simp: concat_date_time_nth str_add_None_iff)
    moreover have "i < length ?ss"
      using that(1) lds lts by simp
    ultimately have "dts ! i = None"
      by (simp add: dts)
    with that(1) ldts show ?thesis by simp
  qed
  show ?thesis
    apply (rule exI [of _ ds], rule exI [of _ ts], rule exI [of _ dts])
    apply (rule exI [of _ ?hs], rule exI [of _ ?dys])
    using gd gt ldts both missing by (simp add: t')
qed

lemma cleaner_ex_flat: "cleaner ex_kernels ex_flat = Inr ex_flat"
  by (simp add: ex_flat_def eval_frame)

lemma wf_ex_flat_scaled: "wf_table ex_flat_scaled"
  by (simp add: ex_flat_scaled_def wf_table_def nrows_def)

lemma ex_timestamp_fields:
  "dt_hour 1078941600000000000 = 18" "dt_day 1078941600000000000 = 10"
  by (simp_all add: dt_hour_def dt_day_def ns_per_day_def ns_per_hour_def
      days_to_yearsdays_def is_leapyear_def month_lengths_def)

lemma feature_deriver_ex_flat: "feature_deriver ex_parse ex_flat_scaled = Inr ex_flat_final"
  by (simp add: feature_deriver_def ex_flat_scaled_def ex_flat_final_def get_col_def set_col_def
      to_datetime_def concat_date_time_def ex_parse_def ex_timestamp_fields)

theorem derived_features_counterexample:
  "cleaner ex_kernels ex_flat = Inr ex_flat \<and> scaler ex_kernels ex_flat = Inr ex_flat_scaled \<and>
   feature_deriver ex_parse ex_flat_scaled = Inr ex_flat_final \<and>
   get_col ex_flat_final ''Date'' = Some (StrCol [Some ''2004-03-10'', None]) \<and>
   get_col ex_flat_final ''DateTime'' = Some (TsCol [Some 1078941600000000000, None]) \<and>
   get_col ex_flat_final ''Hour'' = Some (NumCol [Some 18, None]) \<and>
   get_col ex_flat_final ''Day'' = Some (NumCol [Some 10, None])"
  using cleaner_ex_flat scaler_ex_flat feature_deriver_ex_flat
  by (simp add: ex_flat_final_def get_col_def)

theorem derived_features_witness:
  "wf_table ex_flat_scaled \<and> feature_deriver ex_parse ex_flat_scaled = Inr ex_flat_final \<and>
   (\<exists>ds ts dts hs dys x.
      get_col ex_flat_final ''Date'' = Some (StrCol ds) \<and>
      get_col ex_flat_final ''Time'' = Some (StrCol ts) \<and>
      get_col ex_flat_final ''DateTime'' = Some (TsCol dts) \<and>
      get_col ex_flat_final ''Hour'' = Some (NumCol hs) \<and>
      get_col ex_flat_final ''Day'' = Some (NumCol dys) \<and>
      ds ! 0 = Some ''2004-03-10'' \<and> ts ! 0 = Some ''18:00:00'' \<and>
      dts ! 0 = Some x \<and> hs ! 0 = Some (real_of_int (dt_hour x)) \<and>
      0 \<le> dt_hour x \<and> dt_hour x \<le> 23 \<and>
      dys ! 0 = Some (real_of_int (dt_day x)) \<and> 1 \<le> dt_day x \<and> dt_day x \<le> 31 \<and>
      ds ! 1 = None \<and> dts ! 1 = None \<and> hs ! 1 = None \<and> dys ! 1 = None)"
proof -
  from derived_features [OF wf_ex_flat_scaled feature_deriver_ex_flat]
  obtain ds ts dts hs dys where
    g: "get_col ex_flat_final ''Date'' = Some (StrCol ds)"
       "get_col ex_flat_final ''Time'' = Some (StrCol ts)"
       "get_col ex_flat_final ''DateTime'' = Some (TsCol dts)"
       "get_col ex_flat_final ''Hour'' = Some (NumCol hs)"
       "get_col ex_flat_final ''Day'' = Some (NumCol dys)"
    and both: "\<forall>i d tm. i < nrows ex_flat_scaled \<and> ds ! i = Some d \<and> ts ! i = Some tm \<longrightarrow>
        (\<exists>x. ex_parse (present (concat_date_time ds ts)) (d @ '' '' @ tm) = Some x \<and>
             dts ! i = Some x \<and>
             hs ! i = Some (real_of_int (dt_hour x)) \<and> 0 \<le> dt_hour x \<and> dt_hour x \<le> 23 \<and>
             dys ! i = Some (real_of_int (dt_day x)) \<and> 1 \<le> dt_day x \<and> dt_day x \<le> 31)"
    and missing: "\<forall>i. i < nrows ex_flat_scaled \<and> (ds ! i = None \<or> ts ! i = None) \<longrightarrow>
        dts ! i = None \<and> hs ! i = None \<and> dys ! i = None"
    by blast
  have ds: "ds = [Some ''2004-03-10'', None]" and ts: "ts = [Some ''18:00:00'', Some ''19:00:00'']"
    using g(1,2) by (simp_all add: ex_flat_final_def get_col_def)
  have n: "nrows ex_flat_scaled = 2"
    by (simp add: ex_flat_scaled_def nrows_def)
  have d0: "ds ! 0 = Some ''2004-03-10''" and t0: "ts ! 0 = Some ''18:00:00''"
    and d1: "ds ! 1 = None"
    by (simp_all add: ds ts)
  from both n d0 t0 obtain x where
    x: "dts ! 0 = Some x" "hs ! 0 = Some (real_of_int (dt_hour x))" "0 \<le> dt_hour x"
       "dt_hour x \<le> 23" "dys ! 0 = Some (real_of_int (dt_day x))" "1 \<le> dt_day x" "dt_day x \<le> 31"
    by (metis zero_less_numeral)
  from missing n d1 have m: "dts ! 1 = None" "hs ! 1 = None" "dys ! 1 = None"
    by (metis one_less_numeral_iff semiring_norm(76))+
  have "\<exists>ds ts dts hs dys x.
      get_col ex_flat_final ''Date'' = Some (StrCol ds) \<and>
      get_col ex_flat_final ''Time'' = Some (StrCol ts) \<and>
      get_col ex_flat_final ''DateTime'' = Some (TsCol dts) \<and>
      get_col ex_flat_final ''Hour'' = Some (NumCol hs) \<and>
      get_col ex_flat_final ''Day'' = Some (NumCol dys) \<and>
      ds ! 0 = Some ''2004-03-10'' \<and> ts ! 0 = Some ''18:00:00'' \<and>
      dts ! 0 = Some x \<and> hs ! 0 = Some (real_of_int (dt_hour x)) \<and>
      0 \<le> dt_hour x \<and> dt_hour x \<le> 23 \<and>
      dys ! 0 = Some (real_of_int (dt_day x)) \<and> 1 \<le> dt_day x \<and> dt_day x \<le> 31 \<and>
      ds ! 1 = None \<and> dts ! 1 = None \<and> hs ! 1 = None \<and> dys ! 1 = None"
    using g d0 t0 x d1 m by blast
  with wf_ex_flat_scaled feature_deriver_ex_flat show ?thesis
    by (intro conjI)
qed

theorem missing_date_passes_counterexample:
  "get_col ex_flat_scaled ''Date'' = Some (StrCol [Some ''2004-03-10'', None]) \<and>
   get_col ex_flat_scaled ''Time'' = Some (StrCol [Some ''18:00:00'', Some ''19:00:00'']) \<and>
   concat_date_time [Some ''2004-03-10'', None] [Some ''18:00:00'', Some ''19:00:00''] =
     [Some ''2004-03-10 18:00:00'', None] \<and>
   feature_deriver ex_parse ex_flat_scaled = Inr ex_flat_final"
  using feature_deriver_ex_flat
  by (simp add: ex_flat_scaled_def get_col_def concat_date_time_def)

theorem unparseable_row_fails_witness:
  "get_col ex_bad_time ''Date'' = Some (StrCol [Some ''2004-03-10'', Some ''2004-03-10'']) \<and>
   get_col ex_bad_time ''Time'' = Some (StrCol [Some ''18:00:00'', Some ''not a time'']) \<and>
   ex_parse (present (concat_date_time [Some ''2004-03-10'', Some ''2004-03-10'']
                                       [Some ''18:00:00'', Some ''not a time'']))
            (''2004-03-10'' @ '' '' @ ''not a time'') = None \<and>
   feature_deriver ex_parse ex_bad_time = Inl ValueError"
proof -
  have d: "get_col ex_bad_time ''Date'' = Some (StrCol [Some ''2004-03-10'', Some ''2004-03-10''])"
    and t: "get_col ex_bad_time ''Time'' = Some (StrCol [Some ''18:00:00'', Some ''not a time''])"
    by (simp_all add: ex_bad_time_def get_col_def)
  have p: "ex_parse (present (concat_date_time [Some ''2004-03-10'', Some ''2004-03-10'']
                                       [Some ''18:00:00'', Some ''not a time'']))
            (''2004-03-10'' @ '' '' @ ''not a time'') = None"
    by (simp add: ex_parse_def)
  have "feature_deriver ex_parse ex_bad_time = Inl ValueError"
    by (rule unparseable_row_fails
          [where i = 1 and d = "''2004-03-10''" and tm = "''not a time''", OF d t])
       (simp_all add: ex_parse_def)
  with d t p show ?thesis
    by (intro conjI)
qed

end
